theory Spec2Isabelle
  imports Main "HOL-Library.Word"
begin

unbundle bit_operations_syntax

section \<open>Expression trees of lab6_task1_trpo.cpp\<close>

subsection \<open>Machine types and the platform\<close>

text \<open>
  A \<open>double\<close> is carried as its 64-bit object representation (IEEE 754 binary64), an
  \<open>int\<close> as a 32-bit word and a \<open>char\<close> as an 8-bit word.  The literal \<open>0.0\<close> is the
  all-zero word.

  The program fixes neither the arithmetic on \<open>double\<close> (the built-in operators
  \<open>+ - / *\<close>), nor the library functions that the unqualified names \<open>sqrt\<close> and \<open>abs\<close>
  resolve to (the file includes only \<open><iostream>\<close> and \<open><string>\<close>), nor whether plain
  \<open>char\<close> is signed.  All three belong to the compiler and its library; they are the
  fields of a record that every function of the model takes as its first argument.
\<close>

type_synonym double = "64 word"
type_synonym cint = "32 word"
type_synonym cchar = "8 word"

record platform =
  d_add :: "double \<Rightarrow> double \<Rightarrow> double"
  d_sub :: "double \<Rightarrow> double \<Rightarrow> double"
  d_div :: "double \<Rightarrow> double \<Rightarrow> double"
  d_mul :: "double \<Rightarrow> double \<Rightarrow> double"
  sqrt_c :: "double \<Rightarrow> double"
  abs_c :: "double \<Rightarrow> double"
  char_signed :: bool

text \<open>Integral conversion \<open>int \<rightarrow> char\<close>: the low eight bits are kept.\<close>

definition int_to_char :: "cint \<Rightarrow> cchar" where
  "int_to_char i = ucast i"

text \<open>Integral conversion \<open>char \<rightarrow> int\<close>: sign extension where \<open>char\<close> is signed, zero
  extension where it is not.\<close>

definition char_to_int :: "platform \<Rightarrow> cchar \<Rightarrow> cint" where
  "char_to_int P c = (if char_signed P then scast c else ucast c)"

subsection \<open>The node variants\<close>

text \<open>
  \<open>struct Expression\<close> with its four derived structs.  The selectors are the private
  fields; the constructors take their arguments in the order of the C++ constructors
  and store them unchanged.
\<close>

datatype Expression =
    Number (value_m: double)
  | BinaryOperation (left_m: Expression) (op_m: cint) (right_m: Expression)
  | FunctionCall (name_m: string) (arg_m: Expression)
  | Variable (name_m: string) (value_m: double)

text \<open>\<open>static constexpr char PLUS = '+'\<close>, and so on.\<close>

definition PLUS :: cchar where "PLUS = of_char CHR ''+''"
definition MINUS :: cchar where "MINUS = of_char CHR ''-''"
definition DIV :: cchar where "DIV = of_char CHR ''/''"
definition MUL :: cchar where "MUL = of_char CHR ''*''"

text \<open>\<open>char operation() const { return op_; }\<close>: the \<open>int\<close> field is returned as a
  \<open>char\<close>.\<close>

definition operation :: "Expression \<Rightarrow> cchar" where
  "operation e = int_to_char (op_m e)"

subsection \<open>evaluate\<close>

text \<open>
  The \<open>switch\<close> of \<open>BinaryOperation::evaluate\<close> compares the \<open>int\<close> field with the four
  \<open>char\<close> constants converted to \<open>int\<close>, in the order \<open>PLUS\<close>, \<open>MINUS\<close>, \<open>DIV\<close>, \<open>MUL\<close>;
  the \<open>default\<close> branch returns \<open>0.0\<close>.
\<close>

definition apply_operation :: "platform \<Rightarrow> cint \<Rightarrow> double \<Rightarrow> double \<Rightarrow> double" where
  "apply_operation P op left_value right_value =
     (if op = char_to_int P PLUS then d_add P left_value right_value
      else if op = char_to_int P MINUS then d_sub P left_value right_value
      else if op = char_to_int P DIV then d_div P left_value right_value
      else if op = char_to_int P MUL then d_mul P left_value right_value
      else 0)"

text \<open>The \<open>if\<close> chain of \<open>FunctionCall::evaluate\<close> on the name; the last branch returns
  \<open>0.0\<close>.\<close>

definition apply_function :: "platform \<Rightarrow> string \<Rightarrow> double \<Rightarrow> double" where
  "apply_function P name arg_value =
     (if name = ''sqrt'' then sqrt_c P arg_value
      else if name = ''abs'' then abs_c P arg_value
      else 0)"

text \<open>Both operands of a \<open>BinaryOperation\<close> and the argument of a \<open>FunctionCall\<close> are
  evaluated before the tag or the name is looked at.\<close>

fun evaluate :: "platform \<Rightarrow> Expression \<Rightarrow> double" where
  "evaluate P (Number v) = v"
| "evaluate P (BinaryOperation l op r) =
     (let left_value = evaluate P l;
          right_value = evaluate P r
      in apply_operation P op left_value right_value)"
| "evaluate P (FunctionCall name arg) =
     (let arg_value = evaluate P arg
      in apply_function P name arg_value)"
| "evaluate P (Variable name v) = v"

text \<open>The tags that the \<open>switch\<close> has a \<open>case\<close> for.\<close>

definition known_operation :: "platform \<Rightarrow> cint \<Rightarrow> bool" where
  "known_operation P op =
     (op = char_to_int P PLUS \<or> op = char_to_int P MINUS \<or>
      op = char_to_int P DIV \<or> op = char_to_int P MUL)"

subsection \<open>transform with CopySyntaxTree\<close>

text \<open>
  \<open>transform\<close> is \<open>e->transform(&CST)\<close> for a \<open>CopySyntaxTree CST\<close>: each node hands
  itself to the method of its variant, and the methods call \<open>transform\<close> on the children.
  A method is only ever applied to a node of its own variant.  \<open>transformBinaryOperation\<close>
  reads the tag through \<open>operation()\<close>, a \<open>char\<close>, and passes it to a constructor whose
  parameter is an \<open>int\<close>; \<open>transformVariable\<close> reads the value through \<open>evaluate()\<close>.
\<close>

fun transform :: "platform \<Rightarrow> Expression \<Rightarrow> Expression"
  and transformNumber :: "platform \<Rightarrow> Expression \<Rightarrow> Expression"
  and transformBinaryOperation :: "platform \<Rightarrow> Expression \<Rightarrow> Expression"
  and transformFunctionCall :: "platform \<Rightarrow> Expression \<Rightarrow> Expression"
  and transformVariable :: "platform \<Rightarrow> Expression \<Rightarrow> Expression"
where
  "transform P (Number v) = transformNumber P (Number v)"
| "transform P (BinaryOperation l op r) = transformBinaryOperation P (BinaryOperation l op r)"
| "transform P (FunctionCall name arg) = transformFunctionCall P (FunctionCall name arg)"
| "transform P (Variable name v) = transformVariable P (Variable name v)"
| "transformNumber P number = Number (value_m number)"
| "transformBinaryOperation P (BinaryOperation l op r) =
     (let left = transform P l;
          right = transform P r
      in BinaryOperation left (char_to_int P (operation (BinaryOperation l op r))) right)"
| "transformFunctionCall P (FunctionCall name arg) =
     (let arg' = transform P arg in FunctionCall name arg')"
| "transformVariable P var = Variable (name_m var) (evaluate P var)"

text \<open>The trees in which every operator tag survives the way through \<open>char\<close> and back.\<close>

fun tags_fit_char :: "platform \<Rightarrow> Expression \<Rightarrow> bool" where
  "tags_fit_char P (Number v) = True"
| "tags_fit_char P (BinaryOperation l op r) =
     (char_to_int P (int_to_char op) = op \<and> tags_fit_char P l \<and> tags_fit_char P r)"
| "tags_fit_char P (FunctionCall name arg) = tags_fit_char P arg"
| "tags_fit_char P (Variable name v) = True"

subsection \<open>Call depth\<close>

text \<open>
  The same functions with a bound on the depth of the call stack: every call of
  \<open>evaluate\<close>, of \<open>transform\<close> and of a \<open>CopySyntaxTree\<close> method takes one frame, and a
  call that finds no frame left returns \<open>None\<close>.  (The accessors return without calling
  anything and are not counted.)
\<close>

fun depth :: "Expression \<Rightarrow> nat" where
  "depth (Number v) = 1"
| "depth (BinaryOperation l op r) = Suc (max (depth l) (depth r))"
| "depth (FunctionCall name arg) = Suc (depth arg)"
| "depth (Variable name v) = 1"

fun evaluate_within :: "platform \<Rightarrow> nat \<Rightarrow> Expression \<Rightarrow> double option" where
  "evaluate_within P 0 e = None"
| "evaluate_within P (Suc n) (Number v) = Some v"
| "evaluate_within P (Suc n) (BinaryOperation l op r) =
     (case evaluate_within P n l of
        None \<Rightarrow> None
      | Some left_value \<Rightarrow>
          (case evaluate_within P n r of
             None \<Rightarrow> None
           | Some right_value \<Rightarrow> Some (apply_operation P op left_value right_value)))"
| "evaluate_within P (Suc n) (FunctionCall name arg) =
     (case evaluate_within P n arg of
        None \<Rightarrow> None
      | Some arg_value \<Rightarrow> Some (apply_function P name arg_value))"
| "evaluate_within P (Suc n) (Variable name v) = Some v"

fun transform_within :: "platform \<Rightarrow> nat \<Rightarrow> Expression \<Rightarrow> Expression option"
  and transformNumber_within :: "platform \<Rightarrow> nat \<Rightarrow> Expression \<Rightarrow> Expression option"
  and transformBinaryOperation_within :: "platform \<Rightarrow> nat \<Rightarrow> Expression \<Rightarrow> Expression option"
  and transformFunctionCall_within :: "platform \<Rightarrow> nat \<Rightarrow> Expression \<Rightarrow> Expression option"
  and transformVariable_within :: "platform \<Rightarrow> nat \<Rightarrow> Expression \<Rightarrow> Expression option"
where
  "transform_within P 0 e = None"
| "transform_within P (Suc n) (Number v) = transformNumber_within P n (Number v)"
| "transform_within P (Suc n) (BinaryOperation l op r) =
     transformBinaryOperation_within P n (BinaryOperation l op r)"
| "transform_within P (Suc n) (FunctionCall name arg) =
     transformFunctionCall_within P n (FunctionCall name arg)"
| "transform_within P (Suc n) (Variable name v) = transformVariable_within P n (Variable name v)"
| "transformNumber_within P 0 number = None"
| "transformNumber_within P (Suc n) number = Some (Number (value_m number))"
| "transformBinaryOperation_within P 0 binop = None"
| "transformBinaryOperation_within P (Suc n) (BinaryOperation l op r) =
     (case transform_within P n l of
        None \<Rightarrow> None
      | Some left \<Rightarrow>
          (case transform_within P n r of
             None \<Rightarrow> None
           | Some right \<Rightarrow>
               Some (BinaryOperation left
                       (char_to_int P (operation (BinaryOperation l op r))) right)))"
| "transformFunctionCall_within P 0 fcall = None"
| "transformFunctionCall_within P (Suc n) (FunctionCall name arg) =
     (case transform_within P n arg of
        None \<Rightarrow> None
      | Some arg' \<Rightarrow> Some (FunctionCall name arg'))"
| "transformVariable_within P 0 var = None"
| "transformVariable_within P (Suc n) var =
     (case evaluate_within P n var of
        None \<Rightarrow> None
      | Some v \<Rightarrow> Some (Variable (name_m var) v))"

subsection \<open>One platform: x86-64 with IEEE 754 binary64 arithmetic\<close>

text \<open>
  The theorems below hold for every platform.  Where one of them is applied to a
  concrete tree, the platform is the following: plain \<open>char\<close> is signed, the four
  operators are those of IEEE 754 binary64 in the default rounding mode (to nearest,
  ties to even), \<open>sqrt\<close> is the correctly rounded square root and \<open>abs\<close> is the overload
  for \<open>double\<close>, which clears the sign bit.  An operation on a NaN returns the first NaN
  operand, quieted; an invalid operation returns the default NaN of SSE2.

  A finite \<open>double\<close> is \<open>d_man x * 2 ^ d_pow x\<close>, negated where \<open>d_sign x\<close> holds.
\<close>

definition d_sign :: "double \<Rightarrow> bool" where
  "d_sign x = bit x 63"

definition d_exp :: "double \<Rightarrow> int" where
  "d_exp x = uint (drop_bit 52 x AND 0x7FF)"

definition d_frac :: "double \<Rightarrow> int" where
  "d_frac x = uint (x AND 0xFFFFFFFFFFFFF)"

definition is_nan :: "double \<Rightarrow> bool" where
  "is_nan x = (d_exp x = 2047 \<and> d_frac x \<noteq> 0)"

definition is_inf :: "double \<Rightarrow> bool" where
  "is_inf x = (d_exp x = 2047 \<and> d_frac x = 0)"

definition is_zero :: "double \<Rightarrow> bool" where
  "is_zero x = (d_exp x = 0 \<and> d_frac x = 0)"

definition d_man :: "double \<Rightarrow> int" where
  "d_man x = (if d_exp x = 0 then d_frac x else 2 ^ 52 + d_frac x)"

definition d_pow :: "double \<Rightarrow> int" where
  "d_pow x = (if d_exp x = 0 then - 1074 else d_exp x - 1075)"

text \<open>The number of binary digits of a positive integer.\<close>

function bitlen :: "int \<Rightarrow> int" where
  "bitlen n = (if n \<le> 0 then 0 else 1 + bitlen (n div 2))"
  by pat_completeness auto
termination
  by (relation "measure nat") auto

declare bitlen.simps [simp del]

text \<open>
  Rounding to nearest, ties to even.  \<open>round_sticky q sticky e\<close> is the bit pattern of the
  magnitude nearest to a positive real that lies in \<open>[q * 2 ^ e, (q + 1) * 2 ^ e)\<close> and is
  above \<open>q * 2 ^ e\<close> exactly if \<open>sticky\<close> holds, for a \<open>q\<close> of 55 digits or more.  A
  subnormal result has exponent field 0, a carry out of the fraction moves into the
  exponent field, and everything from \<open>2 ^ 1024\<close> on is infinity.
  \<open>round_ratio p d e\<close> rounds \<open>p / d * 2 ^ e\<close>.
\<close>

definition round_sticky :: "int \<Rightarrow> bool \<Rightarrow> int \<Rightarrow> int" where
  "round_sticky q sticky e =
     (let E = max (bitlen q - 1 + e) (- 1022);
          k = nat (E - 52 - e);
          m = q div 2 ^ k;
          rem = q mod 2 ^ k;
          half = 2 ^ (k - 1);
          up = (rem > half \<or> (rem = half \<and> (sticky \<or> odd m)))
      in min ((E + 1022) * 2 ^ 52 + (if up then m + 1 else m)) (2047 * 2 ^ 52))"

definition round_ratio :: "int \<Rightarrow> int \<Rightarrow> int \<Rightarrow> int" where
  "round_ratio p d e =
     (let s = 55 + bitlen d;
          n = p * 2 ^ nat s
      in round_sticky (n div d) (n mod d \<noteq> 0) (e - s))"

definition with_sign :: "bool \<Rightarrow> int \<Rightarrow> double" where
  "with_sign s bits = (if s then 0x8000000000000000 else 0) OR word_of_int bits"

definition quiet :: "double \<Rightarrow> double" where
  "quiet x = x OR 0x0008000000000000"

definition default_nan :: double where
  "default_nan = 0xFFF8000000000000"

definition ieee_add :: "double \<Rightarrow> double \<Rightarrow> double" where
  "ieee_add a b =
     (if is_nan a then quiet a
      else if is_nan b then quiet b
      else if is_inf a then (if is_inf b \<and> d_sign a \<noteq> d_sign b then default_nan else a)
      else if is_inf b then b
      else let e = min (d_pow a) (d_pow b);
               va = d_man a * 2 ^ nat (d_pow a - e);
               vb = d_man b * 2 ^ nat (d_pow b - e);
               s = (if d_sign a then - va else va) + (if d_sign b then - vb else vb)
           in if s = 0 then with_sign (d_sign a \<and> d_sign b) 0
              else with_sign (s < 0) (round_ratio \<bar>s\<bar> 1 e))"

definition ieee_sub :: "double \<Rightarrow> double \<Rightarrow> double" where
  "ieee_sub a b =
     (if is_nan a then quiet a
      else if is_nan b then quiet b
      else ieee_add a (b XOR 0x8000000000000000))"

definition ieee_mul :: "double \<Rightarrow> double \<Rightarrow> double" where
  "ieee_mul a b =
     (let s = (d_sign a \<noteq> d_sign b)
      in if is_nan a then quiet a
         else if is_nan b then quiet b
         else if is_inf a \<or> is_inf b then
           (if is_zero a \<or> is_zero b then default_nan else with_sign s (2047 * 2 ^ 52))
         else if is_zero a \<or> is_zero b then with_sign s 0
         else with_sign s (round_ratio (d_man a * d_man b) 1 (d_pow a + d_pow b)))"

definition ieee_div :: "double \<Rightarrow> double \<Rightarrow> double" where
  "ieee_div a b =
     (let s = (d_sign a \<noteq> d_sign b)
      in if is_nan a then quiet a
         else if is_nan b then quiet b
         else if is_inf a then (if is_inf b then default_nan else with_sign s (2047 * 2 ^ 52))
         else if is_inf b then with_sign s 0
         else if is_zero b then (if is_zero a then default_nan else with_sign s (2047 * 2 ^ 52))
         else if is_zero a then with_sign s 0
         else with_sign s (round_ratio (d_man a) (d_man b) (d_pow a - d_pow b)))"

text \<open>The integer square root, one binary digit at a time from the top.\<close>

function isqrt_bits :: "int \<Rightarrow> int \<Rightarrow> int \<Rightarrow> int" where
  "isqrt_bits n i acc =
     (if i \<le> 0 then acc
      else let c = acc + 2 ^ nat (i - 1)
           in isqrt_bits n (i - 1) (if c * c \<le> n then c else acc))"
  by pat_completeness auto
termination
  by (relation "measure (\<lambda>(n, i, acc). nat i)") auto

declare isqrt_bits.simps [simp del]

definition isqrt :: "int \<Rightarrow> int" where
  "isqrt n = isqrt_bits n ((bitlen n + 1) div 2) 0"

definition ieee_sqrt :: "double \<Rightarrow> double" where
  "ieee_sqrt a =
     (if is_nan a then quiet a
      else if is_zero a then a
      else if d_sign a then default_nan
      else if is_inf a then a
      else let odd_pow = d_pow a mod 2;
               n = d_man a * 2 ^ nat (110 + odd_pow);
               r = isqrt n
           in with_sign False (round_sticky r (r * r \<noteq> n) ((d_pow a - odd_pow - 110) div 2)))"

definition ieee_fabs :: "double \<Rightarrow> double" where
  "ieee_fabs a = a AND 0x7FFFFFFFFFFFFFFF"

definition x86_64 :: platform where
  "x86_64 = \<lparr>d_add = ieee_add, d_sub = ieee_sub, d_div = ieee_div, d_mul = ieee_mul,
             sqrt_c = ieee_sqrt, abs_c = ieee_fabs, char_signed = True\<rparr>"

section \<open>Properties\<close>

subsection \<open>Case labels and the shape of the copy\<close>

lemma char_to_int_PLUS: "char_to_int P PLUS = 43"
  by (simp add: char_to_int_def PLUS_def)

lemma char_to_int_MINUS: "char_to_int P MINUS = 45"
  by (simp add: char_to_int_def MINUS_def)

lemma char_to_int_DIV: "char_to_int P DIV = 47"
  by (simp add: char_to_int_def DIV_def)

lemma char_to_int_MUL: "char_to_int P MUL = 42"
  by (simp add: char_to_int_def MUL_def)

lemmas case_labels = char_to_int_PLUS char_to_int_MINUS char_to_int_DIV char_to_int_MUL

lemma known_operation_iff:
  "known_operation P op \<longleftrightarrow> op = 43 \<or> op = 45 \<or> op = 47 \<or> op = 42"
  by (simp add: known_operation_def case_labels)

lemma apply_operation_unknown:
  "\<not> known_operation P op \<Longrightarrow> apply_operation P op x y = 0"
  by (simp add: known_operation_def apply_operation_def)

text \<open>What \<open>transform\<close> returns at each variant: the same variant, the same leaf value,
  the same names, the transformed children, and the tag after its way through \<open>char\<close>.\<close>

lemma transform_shape:
  "transform P (Number v) = Number v"
  "transform P (BinaryOperation l op r) =
     BinaryOperation (transform P l) (char_to_int P (int_to_char op)) (transform P r)"
  "transform P (FunctionCall name arg) = FunctionCall name (transform P arg)"
  "transform P (Variable name v) = Variable name v"
  by (simp_all add: operation_def)

lemma narrow_299: "char_to_int P (int_to_char 299) = 43"
  by (simp add: char_to_int_def int_to_char_def)

text \<open>The copy is the tree itself on the trees whose tags all fit a \<open>char\<close>, and on no
  other tree; on those trees it has the value of the tree.  The four known tags fit.\<close>

lemma transform_when_tags_fit: "tags_fit_char P T \<Longrightarrow> transform P T = T"
  by (induction T) (simp_all add: operation_def)

lemma transform_fixes_iff: "transform P T = T \<longleftrightarrow> tags_fit_char P T"
  by (induction T) (auto simp add: operation_def)

lemma evaluate_transform_when_tags_fit:
  "tags_fit_char P T \<Longrightarrow> evaluate P (transform P T) = evaluate P T"
  by (simp add: transform_when_tags_fit)

lemma known_tags_fit: "known_operation P op \<Longrightarrow> char_to_int P (int_to_char op) = op"
  by (auto simp add: known_operation_iff char_to_int_def int_to_char_def)

text \<open>The tree that \<open>main\<close> builds, \<open>abs(var * sqrt(32.0 - 16.0))\<close> with \<open>var = 10.0\<close>,
  evaluates to \<open>40.0\<close> on the platform above, and so does its copy.\<close>

lemma main_tree_evaluates_to_40:
  "evaluate x86_64
     (FunctionCall ''abs''
        (BinaryOperation (Variable ''var'' 0x4024000000000000) (char_to_int x86_64 MUL)
           (FunctionCall ''sqrt''
              (BinaryOperation (Number 0x4040000000000000) (char_to_int x86_64 MINUS)
                 (Number 0x4030000000000000)))))
   = 0x4044000000000000"
  by code_simp

lemma main_tree_copy_evaluates_to_40:
  "evaluate x86_64 (transform x86_64
     (FunctionCall ''abs''
        (BinaryOperation (Variable ''var'' 0x4024000000000000) (char_to_int x86_64 MUL)
           (FunctionCall ''sqrt''
              (BinaryOperation (Number 0x4040000000000000) (char_to_int x86_64 MINUS)
                 (Number 0x4030000000000000))))))
   = 0x4044000000000000"
  by code_simp

text \<open>A \<open>FunctionCall\<close> named \<open>sqrt\<close> or \<open>abs\<close> returns what the library function of that
  name returns on the value of the argument.\<close>

lemma function_call_applies_library_function:
  "evaluate P (FunctionCall ''sqrt'' e) = sqrt_c P (evaluate P e)"
  "evaluate P (FunctionCall ''abs'' e) = abs_c P (evaluate P e)"
  by (simp_all add: apply_function_def)

text \<open>
  Whether these are the square root and the absolute value is up to the platform: the
  call named \<open>abs\<close> returns the absolute value for every argument exactly on the
  platforms where the unqualified \<open>abs\<close> is the function that clears the sign bit of a
  \<open>double\<close>, and likewise for \<open>sqrt\<close>.  On a platform where it resolves to
  \<open>int abs(int)\<close> the argument is converted to \<open>int\<close> first.
\<close>

lemma abs_call_is_fabs_iff:
  "(\<forall>x. evaluate P (FunctionCall ''abs'' (Number x)) = ieee_fabs x) \<longleftrightarrow> abs_c P = ieee_fabs"
  by (auto simp add: apply_function_def)

lemma sqrt_call_is_ieee_sqrt_iff:
  "(\<forall>x. evaluate P (FunctionCall ''sqrt'' (Number x)) = ieee_sqrt x) \<longleftrightarrow>
   sqrt_c P = ieee_sqrt"
  by (auto simp add: apply_function_def)

text \<open>Clearing the sign bit leaves a non-negative \<open>double\<close> of the same magnitude.\<close>

lemma ieee_fabs_fields:
  "\<not> d_sign (ieee_fabs x) \<and> d_exp (ieee_fabs x) = d_exp x \<and> d_frac (ieee_fabs x) = d_frac x"
proof -
  have e: "drop_bit 52 (x AND 0x7FFFFFFFFFFFFFFF) AND 0x7FF = drop_bit 52 x AND (0x7FF :: 64 word)"
    by (rule bit_word_eqI) (auto simp add: bit_simps)
  have f: "(x AND 0x7FFFFFFFFFFFFFFF) AND 0xFFFFFFFFFFFFF = x AND (0xFFFFFFFFFFFFF :: 64 word)"
    by (simp add: and.assoc)
  have s: "\<not> bit (x AND (0x7FFFFFFFFFFFFFFF :: 64 word)) 63"
    by (simp add: bit_simps)
  from e f s show ?thesis
    by (simp add: d_sign_def d_exp_def d_frac_def ieee_fabs_def)
qed

subsection \<open>Enough frames\<close>

lemma evaluate_within_enough:
  "depth T \<le> n \<Longrightarrow> evaluate_within P n T = Some (evaluate P T)"
proof (induction T arbitrary: n)
  case (Number v)
  then obtain m where "n = Suc m" by (cases n) auto
  then show ?case by simp
next
  case (BinaryOperation l op r)
  then obtain m where n: "n = Suc m" by (cases n) auto
  with BinaryOperation.prems have "depth l \<le> m" and "depth r \<le> m" by auto
  then have "evaluate_within P m l = Some (evaluate P l)"
    and "evaluate_within P m r = Some (evaluate P r)"
    by (simp_all add: BinaryOperation.IH)
  with n show ?case by simp
next
  case (FunctionCall name arg)
  then obtain m where n: "n = Suc m" by (cases n) auto
  with FunctionCall.prems have "depth arg \<le> m" by auto
  then have "evaluate_within P m arg = Some (evaluate P arg)"
    by (rule FunctionCall.IH)
  with n show ?case by simp
next
  case (Variable name v)
  then obtain m where "n = Suc m" by (cases n) auto
  then show ?case by simp
qed

text \<open>With fewer frames than the tree is deep, \<open>evaluate\<close> does not return.\<close>

lemma evaluate_within_short:
  "n < depth T \<Longrightarrow> evaluate_within P n T = None"
proof (induction T arbitrary: n)
  case (BinaryOperation l op r)
  show ?case
  proof (cases n)
    case 0
    then show ?thesis by simp
  next
    case (Suc m)
    with BinaryOperation.prems have "m < depth l \<or> m < depth r" by auto
    then show ?thesis
      using Suc BinaryOperation.IH by (auto split: option.splits)
  qed
next
  case (FunctionCall name arg)
  then show ?case by (cases n) auto
qed auto

lemma transform_within_enough:
  "2 * depth T < n \<Longrightarrow> transform_within P n T = Some (transform P T)"
proof (induction T arbitrary: n)
  case (Number v)
  then obtain m where "n = Suc (Suc m)" by (cases n; cases "n - 1") auto
  then show ?case by simp
next
  case (BinaryOperation l op r)
  then obtain m where n: "n = Suc (Suc m)" by (cases n; cases "n - 1") auto
  with BinaryOperation.prems have "2 * depth l < m" and "2 * depth r < m" by auto
  then have "transform_within P m l = Some (transform P l)"
    and "transform_within P m r = Some (transform P r)"
    by (simp_all add: BinaryOperation.IH)
  with n show ?case by simp
next
  case (FunctionCall name arg)
  then obtain m where n: "n = Suc (Suc m)" by (cases n; cases "n - 1") auto
  with FunctionCall.prems have "2 * depth arg < m" by auto
  then have "transform_within P m arg = Some (transform P arg)"
    by (rule FunctionCall.IH)
  with n show ?case by simp
next
  case (Variable name v)
  then obtain m where "n = Suc (Suc (Suc m))"
    by (cases n; cases "n - 1"; cases "n - 2") auto
  then show ?case by simp
qed

subsection \<open>The claims\<close>

text \<open>
  C1.  The claim: for every tree \<open>T\<close>, the copy made by \<open>CopySyntaxTree\<close> evaluates to the
  same value as \<open>T\<close>.  The code at \<open>BinaryOperation(Number(1.0), 299, Number(2.0))\<close>:
  the tree itself evaluates to \<open>0.0\<close>, since 299 is none of the four tags; its copy
  carries the tag \<open>(char)299 = 43 = '+'\<close> and evaluates to \<open>1.0 + 2.0 = 3.0\<close>.
\<close>

theorem C1_copy_of_tag_299_evaluates_differently:
  "evaluate x86_64
     (BinaryOperation (Number 0x3FF0000000000000) 299 (Number 0x4000000000000000)) = 0 \<and>
   evaluate x86_64 (transform x86_64
     (BinaryOperation (Number 0x3FF0000000000000) 299 (Number 0x4000000000000000)))
     = 0x4008000000000000 \<and>
   evaluate x86_64 (transform x86_64
     (BinaryOperation (Number 0x3FF0000000000000) 299 (Number 0x4000000000000000)))
     \<noteq> evaluate x86_64
         (BinaryOperation (Number 0x3FF0000000000000) 299 (Number 0x4000000000000000))"
  by code_simp

text \<open>The same on every platform and for all operands: the tree evaluates to \<open>0.0\<close>, the
  copy to the sum.\<close>

lemma copy_of_tag_299_adds:
  "evaluate P (BinaryOperation (Number a) 299 (Number b)) = 0 \<and>
   evaluate P (transform P (BinaryOperation (Number a) 299 (Number b))) = d_add P a b"
  by (simp add: operation_def narrow_299 apply_operation_def case_labels)

text \<open>
  C2.  The claim: for every tree \<open>T\<close>, the copy has the same variant at each position,
  the same operator tags, the same function names and the same leaf values and names.
  The code at \<open>BinaryOperation(Number(a), 299, Number(b))\<close>: the copy has the tag 43, not
  299; variant and leaves are those of the tree.
\<close>

theorem C2_copy_of_tag_299_has_tag_43:
  "transform P (BinaryOperation (Number a) 299 (Number b))
     = BinaryOperation (Number a) 43 (Number b) \<and>
   transform P (BinaryOperation (Number a) 299 (Number b))
     \<noteq> BinaryOperation (Number a) 299 (Number b)"
  by (simp add: operation_def narrow_299)

text \<open>
  C3.  For all values \<open>a\<close> and \<open>b\<close> (finite or not),
  \<open>BinaryOperation(Number(a), op, Number(b)).evaluate()\<close> is \<open>a + b\<close>, \<open>a - b\<close>, \<open>a * b\<close> or
  \<open>a / b\<close> of the platform for the tag \<open>PLUS\<close>, \<open>MINUS\<close>, \<open>MUL\<close> or \<open>DIV\<close>.  Where the
  division of the platform follows IEEE 754 at \<open>1.0 / 0.0\<close>, that is, returns positive
  infinity, \<open>BinaryOperation(Number(1.0), DIV, Number(0.0)).evaluate()\<close> returns positive
  infinity, which is not \<open>0.0\<close>: the divisor is not inspected and nothing is raised.
\<close>

theorem C3_binary_operation_on_numbers:
  assumes "d_div P 0x3FF0000000000000 0 = 0x7FF0000000000000"
  shows "evaluate P (BinaryOperation (Number a) (char_to_int P PLUS) (Number b)) = d_add P a b \<and>
    evaluate P (BinaryOperation (Number a) (char_to_int P MINUS) (Number b)) = d_sub P a b \<and>
    evaluate P (BinaryOperation (Number a) (char_to_int P MUL) (Number b)) = d_mul P a b \<and>
    evaluate P (BinaryOperation (Number a) (char_to_int P DIV) (Number b)) = d_div P a b \<and>
    evaluate P (BinaryOperation (Number 0x3FF0000000000000) (char_to_int P DIV) (Number 0))
      = 0x7FF0000000000000 \<and>
    evaluate P (BinaryOperation (Number 0x3FF0000000000000) (char_to_int P DIV) (Number 0))
      \<noteq> 0"
  using assms by (simp add: apply_operation_def case_labels)

theorem C3_witness:
  "d_div x86_64 0x3FF0000000000000 0 = 0x7FF0000000000000 \<and>
   evaluate x86_64 (BinaryOperation (Number 0x4024000000000000) (char_to_int x86_64 MUL)
      (Number 0x4010000000000000)) = d_mul x86_64 0x4024000000000000 0x4010000000000000 \<and>
   evaluate x86_64 (BinaryOperation (Number 0x3FF0000000000000) (char_to_int x86_64 DIV)
      (Number 0)) = 0x7FF0000000000000"
proof -
  have "ieee_div 0x3FF0000000000000 0 = 0x7FF0000000000000"
    by (simp add: ieee_div_def is_nan_def is_inf_def is_zero_def d_exp_def d_frac_def
        d_sign_def with_sign_def)
  then have h: "d_div x86_64 0x3FF0000000000000 0 = 0x7FF0000000000000"
    by (simp add: x86_64_def)
  from C3_binary_operation_on_numbers [OF h, of "0x4024000000000000" "0x4010000000000000"] h
  show ?thesis by simp
qed



text \<open>
  C5.  The claim: a \<open>BinaryOperation\<close> with a tag outside the four known values cannot be
  constructed.  The code: \<open>BinaryOperation(Number(0.0), 0, Number(0.0))\<close> is a
  \<open>BinaryOperation\<close> and its tag 0 is none of the four.
\<close>

theorem C5_counterexample:
  "is_BinaryOperation (BinaryOperation (Number 0) 0 (Number 0)) \<and>
   \<not> known_operation x86_64 (op_m (BinaryOperation (Number 0) 0 (Number 0)))"
  by (simp add: known_operation_iff)

text \<open>
  C5, as the code has it.  The constructor accepts every \<open>int\<close> as the tag, one of the
  four known values or not, and stores it and both children unchanged; nothing is
  rejected at construction.
\<close>

theorem C5_constructor_stores_any_tag:
  "is_BinaryOperation (BinaryOperation l op r) \<and>
   left_m (BinaryOperation l op r) = l \<and>
   op_m (BinaryOperation l op r) = op \<and>
   right_m (BinaryOperation l op r) = r"
  by simp

text \<open>
  C6.  For all children \<open>l\<close> and \<open>r\<close> and every tag that is none of \<open>PLUS\<close>, \<open>MINUS\<close>, \<open>DIV\<close>,
  \<open>MUL\<close>, \<open>BinaryOperation(l, tag, r).evaluate()\<close> returns \<open>0.0\<close>, whatever the children
  evaluate to.
\<close>

theorem C6_unknown_tag_evaluates_to_zero:
  "\<not> known_operation P tag \<Longrightarrow> evaluate P (BinaryOperation l tag r) = 0"
  by (simp add: apply_operation_unknown)

theorem C6_witness:
  "\<not> known_operation x86_64 0 \<and>
   evaluate x86_64
     (BinaryOperation (Number 0x3FF0000000000000) 0 (Number 0x4000000000000000)) = 0"
proof -
  have h: "\<not> known_operation x86_64 0"
    by (simp add: known_operation_iff)
  from C6_unknown_tag_evaluates_to_zero
    [OF h, of "Number 0x3FF0000000000000" "Number 0x4000000000000000"] h
  show ?thesis by simp
qed

text \<open>
  C7.  For every argument \<open>e\<close> and every name other than \<open>sqrt\<close> and \<open>abs\<close>,
  \<open>FunctionCall(name, e).evaluate()\<close> returns \<open>0.0\<close>, whatever \<open>e\<close> evaluates to.
\<close>

theorem C7_unknown_function_evaluates_to_zero:
  "name \<noteq> ''sqrt'' \<Longrightarrow> name \<noteq> ''abs'' \<Longrightarrow> evaluate P (FunctionCall name e) = 0"
  by (simp add: apply_function_def)

theorem C7_witness:
  "''bogus'' \<noteq> ''sqrt'' \<and> ''bogus'' \<noteq> ''abs'' \<and>
   evaluate x86_64 (FunctionCall ''bogus'' (Number 0x3FF0000000000000)) = 0"
  using C7_unknown_function_evaluates_to_zero
    [of "''bogus''" x86_64 "Number 0x3FF0000000000000"]
  by simp

text \<open>
  C8.  For every name and every value \<open>v\<close>, \<open>Variable(name, v).evaluate()\<close> returns \<open>v\<close>
  itself: the name is not looked at, and neither the platform nor any environment
  enters the result.
\<close>

theorem C8_variable_evaluates_to_bound_value:
  "evaluate P (Variable name v) = v"
  by simp

text \<open>
  C9.  On every tree, \<open>evaluate\<close> returns within as many stack frames as the tree is
  deep, and \<open>transform\<close> with \<open>CopySyntaxTree\<close> returns within twice as many and one more
  (a frame for \<open>transform\<close>, one for the method, and one for \<open>evaluate\<close> at a
  \<open>Variable\<close>); each returns the value of the unbounded function.
\<close>

theorem C9_evaluate_and_transform_terminate:
  "evaluate_within P (depth T) T = Some (evaluate P T) \<and>
   transform_within P (Suc (2 * depth T)) T = Some (transform P T)"
  by (simp add: evaluate_within_enough transform_within_enough)

text \<open>
  C10.  The empty string is accepted as a name: for every value \<open>v\<close>, \<open>Variable("", v)\<close>
  is a \<open>Variable\<close> that evaluates to \<open>v\<close>, and for every argument \<open>e\<close>,
  \<open>FunctionCall("", e)\<close> is a \<open>FunctionCall\<close> that evaluates to \<open>0.0\<close>.
\<close>

theorem C10_empty_names:
  "is_Variable (Variable [] v) \<and> name_m (Variable [] v) = [] \<and>
   evaluate P (Variable [] v) = v \<and>
   is_FunctionCall (FunctionCall [] e) \<and> name_m (FunctionCall [] e) = [] \<and>
   evaluate P (FunctionCall [] e) = 0"
  by (simp add: apply_function_def)

end
